theory Spec2Isabelle
  imports Complex_Main "HOL-Library.Sublist"
begin

section \<open>Python values, exceptions and strings\<close>

text \<open>
  Python floats are idealised as reals: the comparisons, sums and thresholds of the
  agents are the ones of the source, without rounding. Exceptions are values: a call
  that may raise returns \<open>exn + 'a\<close>, with \<open>Inl\<close> the exception.
\<close>

datatype exn =
  AttributeError | ValueError | IndexError | TypeError | GraphRecursionError | ExternalFailure string

text \<open>A dictionary value that is either \<open>None\<close> or a string.\<close>

datatype pyval = PNone | PStr string

text \<open>\<open>str.lower()\<close> on ASCII text.\<close>

definition lower_char :: "char \<Rightarrow> char" where
  "lower_char c =
     (let n = (of_char c :: nat) in if 65 \<le> n \<and> n \<le> 90 then char_of (n + 32) else c)"

definition lower :: "string \<Rightarrow> string" where
  "lower s = map lower_char s"

text \<open>\<open>sub in s\<close> on strings: \<open>sub\<close> occurs in \<open>s\<close> as a contiguous substring.\<close>

fun str_in :: "string \<Rightarrow> string \<Rightarrow> bool" where
  "str_in sub [] = (sub = [])"
| "str_in sub (c # cs) = (prefix sub (c # cs) \<or> str_in sub cs)"

text \<open>\<open>xs[i]\<close> for a Python list: a negative index counts from the end.\<close>

definition py_index :: "'a list \<Rightarrow> int \<Rightarrow> exn + 'a" where
  "py_index xs i =
     (if 0 \<le> i \<and> i < int (length xs) then Inr (xs ! nat i)
      else if i < 0 \<and> - int (length xs) \<le> i then Inr (xs ! nat (int (length xs) + i))
      else Inl IndexError)"

section \<open>The transaction dictionary\<close>

text \<open>
  The agents receive a \<open>dict\<close>. Each key the agents read is a field; \<open>None\<close> in an
  \<open>option\<close> field means that the key is absent, so that \<open>transaction.get(key, default)\<close>
  is a case distinction on the field. The keys \<open>timestamp\<close> and \<open>location\<close> may be present
  with the value \<open>None\<close> (the API's \<open>model_dump()\<close> produces that), hence \<open>pyval option\<close>.
  The three approval flags are read only for their truth value. The keys
  \<open>transaction_id\<close> and \<open>amount\<close> are taken to be present, the amount being a number.
\<close>

record transaction =
  transaction_id :: string
  amount :: real
  merchant :: "string option"
  category :: "string option"
  user_id :: "string option"
  timestamp :: "pyval option"
  location :: "pyval option"
  merchant_description :: "string option"
  manager_approval :: bool
  competitive_bids :: bool
  corporate_booking :: bool
  daily_transaction_count :: "real option"
  daily_transaction_volume :: "real option"

definition get_or :: "'a option \<Rightarrow> 'a \<Rightarrow> 'a" where
  "get_or v d = (case v of None \<Rightarrow> d | Some x \<Rightarrow> x)"

section \<open>Compliance agent\<close>

record ComplianceResult =
  status :: string
  sanctions_hit :: bool
  pep_hit :: bool
  policy_violations :: "string list"
  risk_score :: real
  reviewed_policies :: "string list"
  recommendations :: "string list"
  result_timestamp :: string

record SanctionsList =
  entity_name :: string
  entity_type :: string
  country :: string
  list_type :: string
  added_date :: string
  aliases :: "string list"

text \<open>
  The agent's state: the sanctions entries, the PEP terms (a Python set; the list fixes
  its iteration order), the policy texts, and the flat L2 index, which holds the
  embedding vectors in insertion order.
\<close>

record ComplianceAgent =
  sanctions_lists :: "SanctionsList list"
  pep_list :: "string list"
  policy_texts :: "string list"
  policy_index :: "real list list"

definition load_sanctions_lists :: "SanctionsList list" where
  "load_sanctions_lists =
     [\<lparr>entity_name = ''Suspicious Corp International'', entity_type = ''ORGANIZATION'',
       country = ''Country X'', list_type = ''OFAC_SDN'', added_date = ''2024-01-15'',
       aliases = [''SCI'', ''Sus Corp'']\<rparr>,
      \<lparr>entity_name = ''John Doe Sanctioned'', entity_type = ''INDIVIDUAL'',
       country = ''Country Y'', list_type = ''OFAC_SDN'', added_date = ''2023-06-20'',
       aliases = [''J. Doe'', ''Johnny Doe'']\<rparr>,
      \<lparr>entity_name = ''Blocked Vendor LLC'', entity_type = ''ORGANIZATION'',
       country = ''Country Z'', list_type = ''EU_SANCTIONS'', added_date = ''2024-03-10'',
       aliases = [''BV LLC'']\<rparr>]"

definition load_pep_list :: "string list" where
  "load_pep_list =
     [''government official'', ''minister of finance'', ''senator'', ''ambassador'',
      ''military general'', ''central bank governor'']"

definition initial_policy_texts :: "string list" where
  "initial_policy_texts =
     [''All transactions above $10,000 require manager approval and documented business justification.'',
      ''Expenses for entertainment and gifts are limited to $500 per event and must have detailed receipts.'',
      ''Travel expenses must be booked through approved corporate travel agency. Economy class required for flights under 6 hours.'',
      ''IT equipment purchases require IT department approval and must meet security standards.'',
      ''Vendor payments require three competitive bids for contracts over $25,000.'',
      ''Personal purchases or gifts using company funds are strictly prohibited.'',
      ''All foreign transactions must be screened for OFAC compliance before processing.'',
      ''Consulting services require documented statements of work and deliverables.'',
      ''Recurring subscriptions must be reviewed quarterly for necessity and cost optimization.'',
      ''Cash advances are limited to $1,000 and require repayment within 30 days with receipts.'']"

subsection \<open>Sanctions and PEP screening\<close>

text \<open>
  One test of \<open>_check_sanctions\<close>:
  \<open>listed.lower() in entity_lower or entity_lower in listed.lower()\<close>.
\<close>

definition name_matches :: "string \<Rightarrow> string \<Rightarrow> bool" where
  "name_matches listed entity_lower =
     (str_in (lower listed) entity_lower \<or> str_in entity_lower (lower listed))"

text \<open>The inner loop over the aliases: the first matching alias is recorded, then \<open>break\<close>.\<close>

fun alias_matches :: "SanctionsList \<Rightarrow> string \<Rightarrow> string list \<Rightarrow> string list" where
  "alias_matches s entity_lower [] = []"
| "alias_matches s entity_lower (alias # rest) =
     (if name_matches alias entity_lower
      then [''Matched '' @ list_type s @ '' alias: '' @ alias @ '' -> '' @ entity_name s]
      else alias_matches s entity_lower rest)"

text \<open>The outer loop: a match on the main name is recorded and the aliases are skipped.\<close>

fun sanction_matches :: "SanctionsList list \<Rightarrow> string \<Rightarrow> string list" where
  "sanction_matches [] entity_lower = []"
| "sanction_matches (s # ss) entity_lower =
     (if name_matches (entity_name s) entity_lower
      then (''Matched '' @ list_type s @ '': '' @ entity_name s) # sanction_matches ss entity_lower
      else alias_matches s entity_lower (aliases s) @ sanction_matches ss entity_lower)"

definition check_sanctions :: "ComplianceAgent \<Rightarrow> string \<Rightarrow> bool \<times> string list" where
  "check_sanctions agent name =
     (let entity_lower = lower name;
          matches = sanction_matches (sanctions_lists agent) entity_lower;
          hit = (length matches > 0)
      in (hit, matches))"

definition check_pep :: "ComplianceAgent \<Rightarrow> string \<Rightarrow> bool \<times> string list" where
  "check_pep agent entity_description =
     (let desc_lower = lower entity_description;
          matches = map (\<lambda>pep_term. ''PEP indicator: '' @ pep_term)
                        (filter (\<lambda>pep_term. str_in pep_term desc_lower) (pep_list agent));
          hit = (length matches > 0)
      in (hit, matches))"

subsection \<open>The collaborators outside the repository\<close>

text \<open>
  What the agents call but do not define: the interpreter's built-in \<open>hash\<close> (on strings
  it is keyed by the process's hash seed), the clock, \<open>datetime.fromisoformat\<close>
  (\<open>None\<close> when it raises \<open>ValueError\<close>), the text of a float in an f-string, the
  sentence encoder, the scaler's \<open>fit_transform\<close> on the single feature row, and the spend
  agent. Each is a parameter of the model; one that may raise returns a sum.
\<close>

record datetime =
  hour :: nat
  weekday :: nat

record SpendAnalysis =
  total_spend :: real
  budget_utilization :: real

record env =
  py_hash :: "pyval \<Rightarrow> int"
  now_iso :: string
  fromisoformat :: "string \<Rightarrow> datetime option"
  str_of_float :: "real \<Rightarrow> string"
  encode :: "string \<Rightarrow> exn + real list"
  fit_transform :: "real list \<Rightarrow> exn + real list"
  analyze_spending :: "transaction \<Rightarrow> exn + SpendAnalysis"

subsection \<open>Policy retrieval\<close>

text \<open>
  \<open>IndexFlatL2.search(query, k)\<close>: exhaustive search by squared Euclidean distance. It
  returns exactly \<open>k\<close> labels, nearest first, a tie going to the lower label; when the
  index holds fewer than \<open>k\<close> vectors the remaining labels are \<open>-1\<close>.
\<close>

definition l2sqr :: "real list \<Rightarrow> real list \<Rightarrow> real" where
  "l2sqr x y = (\<Sum>(a, b) \<leftarrow> zip x y. (a - b)\<^sup>2)"

definition index_search :: "real list list \<Rightarrow> real list \<Rightarrow> nat \<Rightarrow> int list" where
  "index_search index query k =
     (let order = sort_key (\<lambda>i. l2sqr query (index ! i)) [0..<length index];
          found = map int (take k order)
      in found @ replicate (k - length found) (- 1))"

text \<open>A list comprehension whose element expression may raise: the first exception wins.\<close>

fun collect :: "(exn + 'a) list \<Rightarrow> exn + 'a list" where
  "collect [] = Inr []"
| "collect (r # rs) =
     (case r of Inl e \<Rightarrow> Inl e
      | Inr x \<Rightarrow> (case collect rs of Inl e \<Rightarrow> Inl e | Inr xs \<Rightarrow> Inr (x # xs)))"

definition retrieve_relevant_policies ::
  "env \<Rightarrow> ComplianceAgent \<Rightarrow> transaction \<Rightarrow> nat \<Rightarrow> exn + string list" where
  "retrieve_relevant_policies ev agent t k =
     (let query_parts =
            [''Transaction amount $'' @ str_of_float ev (amount t),
             ''Category: '' @ get_or (category t) ''unknown'',
             ''Merchant: '' @ get_or (merchant t) ''unknown''];
          query = query_parts ! 0 @ '' '' @ query_parts ! 1 @ '' '' @ query_parts ! 2
      in case encode ev query of
           Inl e \<Rightarrow> Inl e
         | Inr query_embedding \<Rightarrow>
             (let indices = index_search (policy_index agent) query_embedding k
              in collect (map (\<lambda>idx. py_index (policy_texts agent) idx) indices)))"

subsection \<open>Policy rules and the compliance decision\<close>

text \<open>The body of the loop of \<open>_check_policy_violations\<close> for one policy.\<close>

definition policy_checks :: "transaction \<Rightarrow> string \<Rightarrow> string list" where
  "policy_checks t policy =
     (let amt = amount t;
          cat = lower (get_or (category t) []);
          policy_lower = lower policy;
          violation = ''Policy violation: '' @ policy
      in (if str_in ''above $10,000'' policy_lower \<and> amt > 10000 \<and> \<not> manager_approval t
          then [violation] else [])
       @ (if str_in ''above $25,000'' policy_lower \<and> amt > 25000 \<and> \<not> competitive_bids t
          then [violation] else [])
       @ (if str_in ''entertainment'' policy_lower \<and> str_in ''entertainment'' cat \<and> amt > 500
          then [violation] else [])
       @ (if str_in ''travel'' policy_lower \<and> str_in ''travel'' cat \<and> \<not> corporate_booking t
          then [violation] else []))"

definition check_policy_violations :: "transaction \<Rightarrow> string list \<Rightarrow> string list" where
  "check_policy_violations t policies = concat (map (policy_checks t) policies)"

text \<open>\<open>check_compliance\<close> calls the retrieval with its default \<open>k = 3\<close>.\<close>

definition check_compliance :: "env \<Rightarrow> ComplianceAgent \<Rightarrow> transaction \<Rightarrow> exn + ComplianceResult" where
  "check_compliance ev agent t =
     (let m = get_or (merchant t) ''Unknown'';
          amt = amount t;
          (s_hit, sanction_matches) = check_sanctions agent m;
          m_description = get_or (merchant_description t) m;
          (p_hit, pep_matches) = check_pep agent m_description
      in case retrieve_relevant_policies ev agent t 3 of
           Inl e \<Rightarrow> Inl e
         | Inr relevant_policies \<Rightarrow>
             (let violations = check_policy_violations t relevant_policies;
                  score = min ((if s_hit then 0.8 else 0) + (if p_hit then 0.3 else 0)
                               + real (length violations) * 0.1) 1.0;
                  st = (if s_hit then ''REJECTED''
                        else if p_hit \<or> length violations > 2 \<or> score > 0.7 then ''REVIEW_REQUIRED''
                        else if length violations > 0 then ''REVIEW_REQUIRED''
                        else ''APPROVED'');
                  recs = (if s_hit
                          then ''IMMEDIATE ESCALATION: Sanctions match detected'' # sanction_matches
                          else [])
                       @ (if p_hit
                          then ''Enhanced due diligence required for PEP'' # pep_matches
                          else [])
                       @ (if violations \<noteq> []
                          then [''Resolve policy violations before approval''] else [])
                       @ (if st = ''APPROVED'' \<and> amt > 5000
                          then [''Consider additional documentation for audit trail''] else [])
              in Inr \<lparr>status = st, sanctions_hit = s_hit, pep_hit = p_hit,
                      policy_violations = violations, risk_score = score,
                      reviewed_policies = relevant_policies, recommendations = recs,
                      result_timestamp = now_iso ev\<rparr>))"

section \<open>Fraud detection agent\<close>

text \<open>
  A risk factor is a formatted string in the source; each constructor stands for one of
  the strings and carries the value that the string prints.
\<close>

datatype risk_factor =
    HighAmount real
  | UnusualTime nat
  | WeekendTransaction
  | RoundNumberAmount
  | HighVelocity real
  | ErrorDuringAnalysis

record FraudScore =
  overall_score :: real
  risk_level :: string
  anomaly_scores :: "(string \<times> real) list"
  risk_factors :: "risk_factor list"
  confidence :: real
  model_version :: string

text \<open>
  One detector of the ensemble, fitted on the scaled feature row and asked for its score:
  it raises, or yields \<open>decision_function(features_scaled)[0]\<close> together with the minimum
  and the maximum of its \<open>decision_scores_\<close>.
\<close>

record detector_run =
  score :: real
  scores_min :: real
  scores_max :: real

type_synonym detector = "real list \<Rightarrow> exn + detector_run"

text \<open>\<open>self.models\<close>: a dictionary, so the names are distinct; the list keeps its insertion order.\<close>

record FraudDetectionAgent =
  models :: "(string \<times> detector) list"
  agent_version :: string

definition initialize_models ::
  "detector \<Rightarrow> detector \<Rightarrow> detector \<Rightarrow> detector \<Rightarrow> detector \<Rightarrow> FraudDetectionAgent" where
  "initialize_models iforest lof knn cblof hbos =
     \<lparr>models = [(''isolation_forest'', iforest), (''lof'', lof), (''knn'', knn),
                (''cblof'', cblof), (''hbos'', hbos)],
      agent_version = ''1.0.0''\<rparr>"

definition THRESHOLD_LOW :: real where "THRESHOLD_LOW = 0.3"
definition THRESHOLD_MEDIUM :: real where "THRESHOLD_MEDIUM = 0.5"
definition THRESHOLD_HIGH :: real where "THRESHOLD_HIGH = 0.7"
definition THRESHOLD_CRITICAL :: real where "THRESHOLD_CRITICAL = 0.85"

subsection \<open>Feature extraction\<close>

text \<open>\<open>timestamp.replace('Z', '+00:00')\<close>.\<close>

definition replace_Z :: "string \<Rightarrow> string" where
  "replace_Z s = concat (map (\<lambda>c. if c = CHR ''Z'' then ''+00:00'' else [c]) s)"

text \<open>
  The timestamp as both \<open>_extract_features\<close> and \<open>_calculate_risk_factors\<close> read it: the
  default is the clock's ISO string; a string is parsed; \<open>None\<close> is not a string, and reading
  its \<open>hour\<close> raises \<open>AttributeError\<close>.
\<close>

definition read_timestamp :: "env \<Rightarrow> transaction \<Rightarrow> exn + datetime" where
  "read_timestamp ev t =
     (case get_or (timestamp t) (PStr (now_iso ev)) of
        PStr s \<Rightarrow> (case fromisoformat ev (replace_Z s) of
                     None \<Rightarrow> Inl ValueError
                   | Some d \<Rightarrow> Inr d)
      | PNone \<Rightarrow> Inl AttributeError)"

definition extract_features :: "env \<Rightarrow> transaction \<Rightarrow> exn + real list" where
  "extract_features ev t =
     (let amt = amount t in
      case read_timestamp ev t of
        Inl e \<Rightarrow> Inl e
      | Inr ts \<Rightarrow>
          Inr [amt,
               ln (1 + amt),
               real (hour ts),
               real (weekday ts),
               (if weekday ts \<ge> 5 then 1 else 0),
               real_of_int (py_hash ev (PStr (get_or (category t) ''unknown'')) mod 100),
               real_of_int (py_hash ev (PStr (get_or (merchant t) ''unknown'')) mod 100),
               real_of_int (py_hash ev (PStr (get_or (user_id t) ''unknown'')) mod 100),
               real_of_int (py_hash ev (get_or (location t) (PStr ''unknown'')) mod 50),
               get_or (daily_transaction_count t) 1,
               get_or (daily_transaction_volume t) amt])"

subsection \<open>Risk factors\<close>

text \<open>\<open>a % b\<close> on floats, for a positive \<open>b\<close>.\<close>

definition float_mod :: "real \<Rightarrow> real \<Rightarrow> real" where
  "float_mod a b = a - b * of_int \<lfloor>a / b\<rfloor>"

definition calculate_risk_factors :: "env \<Rightarrow> transaction \<Rightarrow> exn + risk_factor list" where
  "calculate_risk_factors ev t =
     (let amt = amount t in
      case read_timestamp ev t of
        Inl e \<Rightarrow> Inl e
      | Inr ts \<Rightarrow>
          (let daily_count = get_or (daily_transaction_count t) 0
           in Inr ((if amt > 10000 then [HighAmount amt] else [])
                 @ (if hour ts < 6 \<or> hour ts > 22 then [UnusualTime (hour ts)] else [])
                 @ (if weekday ts \<ge> 5 then [WeekendTransaction] else [])
                 @ (if float_mod amt 1000 = 0 \<and> amt \<ge> 1000 then [RoundNumberAmount] else [])
                 @ (if daily_count > 10 then [HighVelocity daily_count] else []))))"

subsection \<open>Ensemble scoring\<close>

text \<open>The min-max normalisation of one detector's score, with the source's \<open>1e-10\<close>.\<close>

definition normalized_score :: "detector_run \<Rightarrow> real" where
  "normalized_score r = (score r - scores_min r) / (scores_max r - scores_min r + 1 / 10 ^ 10)"

text \<open>The loop over the models: a detector that raises is given the score \<open>0.0\<close>.\<close>

definition score_models :: "(string \<times> detector) list \<Rightarrow> real list \<Rightarrow> (string \<times> real) list" where
  "score_models ms features_scaled =
     map (\<lambda>(model_name, model).
            (model_name, case model features_scaled of
                           Inl e \<Rightarrow> 0.0
                         | Inr r \<Rightarrow> normalized_score r)) ms"

definition weights :: "(string \<times> real) list" where
  "weights = [(''isolation_forest'', 0.3), (''lof'', 0.25), (''knn'', 0.2),
              (''cblof'', 0.15), (''hbos'', 0.1)]"

definition ensemble_score :: "(string \<times> real) list \<Rightarrow> real" where
  "ensemble_score scores =
     (\<Sum>(model, weight) \<leftarrow> weights. get_or (map_of scores model) 0 * weight)"

text \<open>\<open>np.std\<close>: the population standard deviation.\<close>

definition mean :: "real list \<Rightarrow> real" where
  "mean xs = sum_list xs / real (length xs)"

definition np_std :: "real list \<Rightarrow> real" where
  "np_std xs = sqrt (mean (map (\<lambda>x. (x - mean xs)\<^sup>2) xs))"

definition classify :: "real \<Rightarrow> string" where
  "classify s =
     (if s \<ge> THRESHOLD_CRITICAL then ''CRITICAL''
      else if s \<ge> THRESHOLD_HIGH then ''HIGH''
      else if s \<ge> THRESHOLD_MEDIUM then ''MEDIUM''
      else ''LOW'')"

text \<open>The body of the outer \<open>try\<close> of \<open>detect_fraud\<close>.\<close>

definition detect_fraud_try :: "env \<Rightarrow> FraudDetectionAgent \<Rightarrow> transaction \<Rightarrow> exn + FraudScore" where
  "detect_fraud_try ev agent t =
     (case extract_features ev t of
        Inl e \<Rightarrow> Inl e
      | Inr features \<Rightarrow>
          (case fit_transform ev features of
             Inl e \<Rightarrow> Inl e
           | Inr features_scaled \<Rightarrow>
               (let scores = score_models (models agent) features_scaled;
                    overall = ensemble_score scores;
                    level = classify overall
                in case calculate_risk_factors ev t of
                     Inl e \<Rightarrow> Inl e
                   | Inr factors \<Rightarrow>
                       (let vals = map snd scores;
                            conf = 1.0 - (if vals \<noteq> [] then np_std vals else 0.5)
                        in Inr \<lparr>overall_score = overall, risk_level = level,
                                anomaly_scores = scores, risk_factors = factors,
                                confidence = conf, model_version = agent_version agent\<rparr>))))"

text \<open>The \<open>except\<close> branch: the safe default.\<close>

definition detect_fraud :: "env \<Rightarrow> FraudDetectionAgent \<Rightarrow> transaction \<Rightarrow> FraudScore" where
  "detect_fraud ev agent t =
     (case detect_fraud_try ev agent t of
        Inr result \<Rightarrow> result
      | Inl e \<Rightarrow> \<lparr>overall_score = 0.5, risk_level = ''MEDIUM'', anomaly_scores = [],
                  risk_factors = [ErrorDuringAnalysis], confidence = 0.0,
                  model_version = agent_version agent\<rparr>)"

section \<open>The API: processing one transaction\<close>

text \<open>
  The request body, as the \<open>Transaction\<close> model declares it. The request layer admits a
  body only if \<open>amount > 0\<close>; the three optional fields default to \<open>None\<close>.
\<close>

datatype Transaction =
  Transaction (t_id: string) (t_amount: real) (t_merchant: string) (t_category: string)
    (t_user_id: string) (t_timestamp: "string option") (t_location: "string option")
    (t_description: "string option")


definition opt_val :: "string option \<Rightarrow> pyval" where
  "opt_val v = (case v of None \<Rightarrow> PNone | Some s \<Rightarrow> PStr s)"

text \<open>
  \<open>model_dump()\<close>: every declared field becomes a key, an unset optional field with the
  value \<open>None\<close>; the keys that only a hand-built dictionary can carry are absent.
\<close>

definition model_dump :: "Transaction \<Rightarrow> transaction" where
  "model_dump tx =
     \<lparr>transaction_id = t_id tx, amount = t_amount tx, merchant = Some (t_merchant tx),
      category = Some (t_category tx), user_id = Some (t_user_id tx),
      timestamp = Some (opt_val (t_timestamp tx)), location = Some (opt_val (t_location tx)),
      merchant_description = None, manager_approval = False, competitive_bids = False,
      corporate_booking = False, daily_transaction_count = None,
      daily_transaction_volume = None\<rparr>"

datatype http_error = HTTPException nat exn

text \<open>
  The response. Its \<open>fraud_analysis\<close> and \<open>compliance_check\<close> dictionaries copy fields of
  the two results (risk level, score, confidence, risk factors; status, both hits, risk
  score, violations), so the response holds the results themselves.
\<close>

record ProcessTransactionResponse =
  response_id :: string
  fraud_analysis :: FraudScore
  compliance_check :: ComplianceResult
  spend_analysis :: SpendAnalysis
  overall_status :: string
  response_timestamp :: string

definition process_transaction ::
  "env \<Rightarrow> FraudDetectionAgent \<Rightarrow> ComplianceAgent \<Rightarrow> Transaction
     \<Rightarrow> http_error + ProcessTransactionResponse" where
  "process_transaction ev fraud_agent compliance_agent tx =
     (let fraud_result = detect_fraud ev fraud_agent (model_dump tx) in
      case check_compliance ev compliance_agent (model_dump tx) of
        Inl e \<Rightarrow> Inl (HTTPException 500 e)
      | Inr compliance_result \<Rightarrow>
          (case analyze_spending ev (model_dump tx) of
             Inl e \<Rightarrow> Inl (HTTPException 500 e)
           | Inr spend_result \<Rightarrow>
               (let overall =
                      (if status compliance_result = ''REJECTED'' then ''REJECTED''
                       else if risk_level fraud_result \<in> set [''HIGH'', ''CRITICAL'']
                         then ''FLAGGED_FOR_REVIEW''
                       else if status compliance_result = ''REVIEW_REQUIRED''
                         then ''REVIEW_REQUIRED''
                       else ''APPROVED'')
                in Inr \<lparr>response_id = t_id tx, fraud_analysis = fraud_result,
                        compliance_check = compliance_result, spend_analysis = spend_result,
                        overall_status = overall, response_timestamp = now_iso ev\<rparr>)))"

section \<open>The standalone API\<close>

datatype sim_factor = SimHighAmount real | SimExceedsThreshold | SimElevatedAmount real

record sim_fraud =
  sim_risk_level :: string
  sim_fraud_score :: real
  sim_confidence :: real
  sim_risk_factors :: "sim_factor list"
  sim_anomaly_scores :: "(string \<times> real) list"

definition simulate_fraud_detection :: "transaction \<Rightarrow> sim_fraud" where
  "simulate_fraud_detection t =
     (let amt = amount t;
          (level, sc, factors) =
            (if amt > 15000 then (''HIGH'', 0.75, [SimHighAmount amt, SimExceedsThreshold])
             else if amt > 5000 then (''MEDIUM'', 0.45, [SimElevatedAmount amt])
             else (''LOW'', 0.15, []))
      in \<lparr>sim_risk_level = level, sim_fraud_score = sc, sim_confidence = 0.85,
          sim_risk_factors = factors,
          sim_anomaly_scores = [(''isolation_forest'', sc * 0.9), (''lof'', sc * 1.1),
                                (''knn'', sc * 0.95)]\<rparr>)"

record sim_compliance =
  sim_status :: string
  sim_sanctions_hit :: bool
  sim_pep_hit :: bool
  sim_risk_score :: real
  sim_policy_violations :: "string list"
  sim_recommendations :: "string list"

definition suspicious_terms :: "string list" where
  "suspicious_terms = [''suspicious'', ''offshore'', ''blocked'', ''sanctioned'']"

definition simulate_compliance_check :: "transaction \<Rightarrow> sim_compliance" where
  "simulate_compliance_check t =
     (let m = lower (get_or (merchant t) []);
          s_hit = (\<exists>term \<in> set suspicious_terms. str_in term m);
          p_hit = (str_in ''government'' m \<or> str_in ''official'' m);
          (st, sc, violations) =
            (if s_hit
             then (''REJECTED'', 0.95,
                   [''Merchant '' @ [CHR 0x27] @ m @ [CHR 0x27] @ '' appears on sanctions list''])
             else if p_hit
             then (''REVIEW_REQUIRED'', 0.65, [''Politically Exposed Person detected''])
             else (''APPROVED'', 0.1, []))
      in \<lparr>sim_status = st, sim_sanctions_hit = s_hit, sim_pep_hit = p_hit,
          sim_risk_score = sc, sim_policy_violations = violations,
          sim_recommendations =
            (if violations \<noteq> [] then [''Manual review required'']
             else [''Transaction approved''])\<rparr>)"

record sim_spend =
  sim_total_spend :: real
  sim_budget_utilization :: real
  sim_category :: string
  sim_budget_limit :: real
  sim_over_budget :: bool

definition budgets :: "(string \<times> real) list" where
  "budgets = [(''IT Services'', 100000), (''Travel'', 50000), (''Entertainment'', 10000),
              (''Consulting'', 75000), (''Electronics'', 50000), (''Other'', 25000)]"

definition simulate_spend_analysis :: "transaction \<Rightarrow> sim_spend" where
  "simulate_spend_analysis t =
     (let amt = amount t;
          cat = get_or (category t) ''Other'';
          budget = get_or (map_of budgets cat) 25000;
          utilization = min (amt / budget) 1.0
      in \<lparr>sim_total_spend = amt, sim_budget_utilization = utilization, sim_category = cat,
          sim_budget_limit = budget, sim_over_budget = (utilization > 1.0)\<rparr>)"

record StandaloneResponse =
  sa_id :: string
  sa_fraud_analysis :: sim_fraud
  sa_compliance_check :: sim_compliance
  sa_spend_analysis :: sim_spend
  sa_overall_status :: string

text \<open>
  The standalone handler. None of the three simulations can raise on a dumped request,
  so the handler's \<open>except\<close> branch has no input and the function is total.
\<close>

definition standalone_process_transaction :: "Transaction \<Rightarrow> StandaloneResponse" where
  "standalone_process_transaction tx =
     (let fraud_result = simulate_fraud_detection (model_dump tx);
          compliance_result = simulate_compliance_check (model_dump tx);
          spend_result = simulate_spend_analysis (model_dump tx);
          overall =
            (if sim_status compliance_result = ''REJECTED'' then ''REJECTED''
             else if sim_risk_level fraud_result \<in> set [''HIGH'', ''CRITICAL'']
               then ''FLAGGED_FOR_REVIEW''
             else if sim_status compliance_result = ''REVIEW_REQUIRED'' then ''REVIEW_REQUIRED''
             else ''APPROVED'')
      in \<lparr>sa_id = t_id tx, sa_fraud_analysis = fraud_result,
          sa_compliance_check = compliance_result, sa_spend_analysis = spend_result,
          sa_overall_status = overall\<rparr>)"

section \<open>The orchestrator\<close>












section \<open>The aggregation rule as the specification words it\<close>

text \<open>
  The precedence of the specification's aggregation rule, on the compliance status and
  the fraud risk level: a rejected compliance status first, then a high or critical risk
  level, then a compliance status that requires review, and approval otherwise.
\<close>

definition spec_overall_status :: "string \<Rightarrow> string \<Rightarrow> string" where
  "spec_overall_status c_status f_level =
     (if c_status = ''REJECTED'' then ''REJECTED''
      else if f_level = ''HIGH'' \<or> f_level = ''CRITICAL'' then ''FLAGGED_FOR_REVIEW''
      else if c_status = ''REVIEW_REQUIRED'' then ''REVIEW_REQUIRED''
      else ''APPROVED'')"

section \<open>Concrete agents, environments and requests\<close>

text \<open>
  The agent as \<open>__init__\<close> builds it, given the embeddings of the ten seeded policies.
\<close>

definition initialize_policy_rag :: "real list list \<Rightarrow> ComplianceAgent" where
  "initialize_policy_rag policy_embeddings =
     \<lparr>sanctions_lists = load_sanctions_lists, pep_list = load_pep_list,
      policy_texts = initial_policy_texts, policy_index = policy_embeddings\<rparr>"

definition demo_compliance_agent :: ComplianceAgent where
  "demo_compliance_agent =
     initialize_policy_rag [[0], [1], [2], [3], [4], [5], [6], [7], [8], [9]]"

text \<open>
  The built-in \<open>hash\<close> of CPython 3.11 (64 bit) on the strings of the requests below, in
  an interpreter started with \<open>PYTHONHASHSEED=1\<close> and in one started with
  \<open>PYTHONHASHSEED=2\<close>. On any other argument the tables answer 0; no statement below
  depends on that value.
\<close>

definition hash_seed_1 :: "pyval \<Rightarrow> int" where
  "hash_seed_1 v =
     (if v = PStr ''Office Supplies'' then - 522683795033178433
      else if v = PStr ''Office Depot'' then 8398225518833664563
      else if v = PStr ''EMP-001'' then - 4809377212409289028
      else if v = PStr ''New York, NY'' then 6079771753617900138
      else 0)"


text \<open>Wednesday 15 January 2025, 10:30.\<close>

definition demo_fromisoformat :: "string \<Rightarrow> datetime option" where
  "demo_fromisoformat s =
     (if s = ''2025-01-15T10:30:00+00:00'' \<or> s = ''2025-01-15T10:30:00''
      then Some \<lparr>hour = 10, weekday = 2\<rparr> else None)"

text \<open>
  An environment in which every collaborator answers: a one-dimensional encoder, the
  scaler on a single row (every column becomes zero), and the spend agent's total and
  utilisation for one transaction against the default budgets.
\<close>

definition demo_env :: env where
  "demo_env =
     \<lparr>py_hash = hash_seed_1, now_iso = ''2025-01-15T10:30:00'',
      fromisoformat = demo_fromisoformat, str_of_float = (\<lambda>x. if x = 50000 then ''50000.0'' else ''450.0''),
      encode = (\<lambda>s. Inr [0]), fit_transform = (\<lambda>xs. Inr (map (\<lambda>x. 0) xs)),
      analyze_spending =
        (\<lambda>t. Inr \<lparr>total_spend = amount t, budget_utilization = amount t / 295000\<rparr>)\<rparr>"




definition raising_detector :: detector where
  "raising_detector features_scaled = Inl (ExternalFailure ''fit'')"

definition single_sample_detector :: detector where
  "single_sample_detector features_scaled = Inr \<lparr>score = 3, scores_min = 3, scores_max = 3\<rparr>"

definition overshooting_detector :: detector where
  "overshooting_detector features_scaled = Inr \<lparr>score = 4, scores_min = 3, scores_max = 3\<rparr>"


definition all_raising_agent :: FraudDetectionAgent where
  "all_raising_agent =
     initialize_models raising_detector raising_detector raising_detector raising_detector
       raising_detector"

definition overshooting_agent :: FraudDetectionAgent where
  "overshooting_agent =
     initialize_models overshooting_detector overshooting_detector overshooting_detector
       overshooting_detector overshooting_detector"



definition single_sample_agent :: FraudDetectionAgent where
  "single_sample_agent =
     initialize_models single_sample_detector raising_detector raising_detector
       raising_detector single_sample_detector"

definition clean_request :: Transaction where
  "clean_request =
     Transaction ''TXN-1'' 450 ''Office Depot'' ''Office Supplies'' ''EMP-001''
       (Some ''2025-01-15T10:30:00Z'') (Some ''New York, NY'') None"

definition clean_request_no_timestamp :: Transaction where
  "clean_request_no_timestamp =
     Transaction ''TXN-1'' 450 ''Office Depot'' ''Office Supplies'' ''EMP-001''
       None (Some ''New York, NY'') None"

definition sanctioned_request :: Transaction where
  "sanctioned_request =
     Transaction ''TXN-2'' 50000 ''Suspicious Corp International'' ''Consulting'' ''EMP-001''
       (Some ''2025-01-15T10:30:00Z'') (Some ''New York, NY'') None"

definition empty_merchant_request :: Transaction where
  "empty_merchant_request =
     Transaction ''TXN-3'' 450 [] ''Office Supplies'' ''EMP-001''
       (Some ''2025-01-15T10:30:00Z'') (Some ''New York, NY'') None"


section \<open>Auxiliary facts\<close>

subsection \<open>Strings and sanctions matching\<close>

lemma str_in_Nil: "str_in [] s"
  by (induction s) simp_all

lemma name_matches_empty: "name_matches listed []"
  by (simp add: name_matches_def str_in_Nil)

lemma sanction_matches_empty:
  "sanction_matches ss [] = map (\<lambda>s. ''Matched '' @ list_type s @ '': '' @ entity_name s) ss"
  by (induction ss) (simp_all add: name_matches_empty)

lemma check_sanctions_empty:
  "check_sanctions agent [] =
     (sanctions_lists agent \<noteq> [],
      map (\<lambda>s. ''Matched '' @ list_type s @ '': '' @ entity_name s) (sanctions_lists agent))"
  by (simp add: check_sanctions_def lower_def sanction_matches_empty)

subsection \<open>The compliance decision\<close>

lemma check_compliance_sanctions:
  assumes "check_compliance ev ca t = Inr c"
  shows "sanctions_hit c = fst (check_sanctions ca (get_or (merchant t) ''Unknown''))"
    and "sanctions_hit c \<Longrightarrow> status c = ''REJECTED''"
  using assms
  by (auto simp: check_compliance_def Let_def split: sum.splits prod.splits)

lemma check_compliance_returns:
  assumes "retrieve_relevant_policies ev ca t 3 = Inr ps"
  shows "\<exists>c. check_compliance ev ca t = Inr c"
  using assms
  by (simp add: check_compliance_def Let_def split: prod.splits)

lemma check_compliance_status:
  assumes "check_compliance ev ca t = Inr c"
  shows "status c =
           (if sanctions_hit c then ''REJECTED''
            else if pep_hit c \<or> length (policy_violations c) > 2 \<or> risk_score c > 0.7
              then ''REVIEW_REQUIRED''
            else if length (policy_violations c) > 0 then ''REVIEW_REQUIRED''
            else ''APPROVED'')"
  using assms
  by (auto simp: check_compliance_def Let_def split: sum.splits prod.splits)

lemma sim_hit_rejected:
  "sim_sanctions_hit (simulate_compliance_check t)
     \<Longrightarrow> sim_status (simulate_compliance_check t) = ''REJECTED''"
  by (simp add: simulate_compliance_check_def Let_def split: if_splits)

subsection \<open>Scores, means and deviations\<close>


lemma score_models_member:
  assumes "(n, v) \<in> set (score_models ms fs)"
  shows "\<exists>d. (n, d) \<in> set ms \<and> v = (case d fs of Inl e \<Rightarrow> 0 | Inr r \<Rightarrow> normalized_score r)"
  using assms by (auto simp: score_models_def split: sum.splits)

lemma lookup_range:
  assumes "\<forall>(n, v) \<in> set scores. lo \<le> v \<and> v \<le> hi" and "lo \<le> 0" and "0 \<le> hi"
  shows "lo \<le> get_or (map_of scores m) 0 \<and> get_or (map_of scores m) 0 \<le> hi"
proof (cases "map_of scores m")
  case None
  then show ?thesis using assms by (simp add: get_or_def)
next
  case (Some v)
  then have "(m, v) \<in> set scores" by (rule map_of_SomeD)
  then show ?thesis using assms Some by (auto simp: get_or_def)
qed



lemma ensemble_score_zero:
  assumes "\<forall>(n, v) \<in> set scores. v = 0"
  shows "ensemble_score scores = 0"
proof -
  have "\<forall>(n, v) \<in> set scores. (0::real) \<le> v \<and> v \<le> 0" using assms by auto
  then have r: "\<And>m. get_or (map_of scores m) 0 = 0"
    using lookup_range [of scores 0 0] by (simp add: order_antisym)
  show ?thesis
    by (simp add: ensemble_score_def weights_def r)
qed




lemma np_std_zeros:
  assumes "\<forall>x \<in> set xs. x = 0"
  shows "np_std xs = 0"
proof -
  have s: "sum_list xs = 0" using assms by (induction xs) auto
  have m: "mean xs = 0" by (simp add: mean_def s)
  have eq: "map (\<lambda>x. (x - mean xs)\<^sup>2) xs = map (\<lambda>x. 0) xs"
    using assms by (intro map_cong) (auto simp: m)
  have z: "mean (map (\<lambda>x. 0) xs) = 0"
    by (simp add: mean_def)
  show ?thesis
    unfolding np_std_def eq z by simp
qed

subsection \<open>The two branches of the fraud step\<close>

lemma detect_fraud_try_InrD:
  assumes "detect_fraud_try ev fa t = Inr r"
  shows "\<exists>features fs factors.
           extract_features ev t = Inr features \<and> fit_transform ev features = Inr fs
         \<and> calculate_risk_factors ev t = Inr factors
         \<and> anomaly_scores r = score_models (models fa) fs
         \<and> overall_score r = ensemble_score (anomaly_scores r)
         \<and> risk_level r = classify (overall_score r)
         \<and> confidence r = 1 - (if anomaly_scores r \<noteq> []
                                then np_std (map snd (anomaly_scores r)) else 0.5)"
  using assms
  by (auto simp: detect_fraud_try_def Let_def split: sum.splits)

lemma detect_fraud_default:
  assumes "detect_fraud_try ev fa t = Inl e"
  shows "detect_fraud ev fa t =
           \<lparr>overall_score = 0.5, risk_level = ''MEDIUM'', anomaly_scores = [],
            risk_factors = [ErrorDuringAnalysis], confidence = 0,
            model_version = agent_version fa\<rparr>"
  using assms by (simp add: detect_fraud_def)

lemma detect_fraud_result:
  assumes "detect_fraud_try ev fa t = Inr r"
  shows "detect_fraud ev fa t = r"
  using assms by (simp add: detect_fraud_def)

subsection \<open>The API handler\<close>

lemma process_transaction_returns:
  assumes "check_compliance ev ca (model_dump tx) = Inr c"
    and "analyze_spending ev (model_dump tx) = Inr sp"
  shows "process_transaction ev fa ca tx =
           Inr \<lparr>response_id = t_id tx, fraud_analysis = detect_fraud ev fa (model_dump tx),
                 compliance_check = c, spend_analysis = sp,
                 overall_status =
                   spec_overall_status (status c) (risk_level (detect_fraud ev fa (model_dump tx))),
                 response_timestamp = now_iso ev\<rparr>"
  using assms by (simp add: process_transaction_def spec_overall_status_def Let_def)

lemma process_transaction_InrD:
  assumes "process_transaction ev fa ca tx = Inr r"
  shows "\<exists>c sp. check_compliance ev ca (model_dump tx) = Inr c
           \<and> analyze_spending ev (model_dump tx) = Inr sp
           \<and> fraud_analysis r = detect_fraud ev fa (model_dump tx)
           \<and> compliance_check r = c \<and> spend_analysis r = sp"
  using assms
  by (auto simp: process_transaction_def Let_def split: sum.splits)


subsection \<open>The concrete requests, evaluated\<close>

lemma demo_clean_compliance:
  "check_compliance demo_env demo_compliance_agent (model_dump clean_request) =
     Inr \<lparr>status = ''APPROVED'', sanctions_hit = False, pep_hit = False,
          policy_violations = [], risk_score = 0,
          reviewed_policies = take 3 initial_policy_texts,
          recommendations = [], result_timestamp = ''2025-01-15T10:30:00''\<rparr>"
  by code_simp

lemma demo_spend:
  "analyze_spending demo_env (model_dump clean_request) =
     Inr \<lparr>total_spend = 450, budget_utilization = 450 / 295000\<rparr>"
  by (simp add: demo_env_def model_dump_def clean_request_def)

lemma demo_empty_merchant_retrieval:
  "retrieve_relevant_policies demo_env demo_compliance_agent (model_dump empty_merchant_request) 3
     = Inr (take 3 initial_policy_texts)"
  by code_simp

lemma demo_sanctions_nonempty: "sanctions_lists demo_compliance_agent \<noteq> []"
  by (simp add: demo_compliance_agent_def initialize_policy_rag_def load_sanctions_lists_def)

lemma demo_sanctioned_compliance:
  "check_compliance demo_env demo_compliance_agent (model_dump sanctioned_request) =
     Inr \<lparr>status = ''REJECTED'', sanctions_hit = True, pep_hit = False,
          policy_violations = [''Policy violation: '' @ initial_policy_texts ! 0],
          risk_score = 9 / 10,
          reviewed_policies = take 3 initial_policy_texts,
          recommendations = [''IMMEDIATE ESCALATION: Sanctions match detected'',
                             ''Matched OFAC_SDN: Suspicious Corp International'',
                             ''Resolve policy violations before approval''],
          result_timestamp = ''2025-01-15T10:30:00''\<rparr>"
  by code_simp

lemma demo_sanctioned_standalone:
  "sim_sanctions_hit (sa_compliance_check (standalone_process_transaction sanctioned_request))"
  by code_simp

lemma demo_timestamp:
  "read_timestamp demo_env (model_dump clean_request) = Inr \<lparr>hour = 10, weekday = 2\<rparr>"
  by code_simp

lemma demo_features:
  "extract_features demo_env (model_dump clean_request) =
     Inr [450, ln 451, 10, 2, 0, 67, 63, 72, 38, 1, 450]"
  by (simp add: extract_features_def demo_timestamp)
     (simp add: demo_env_def model_dump_def clean_request_def get_or_def opt_val_def
        hash_seed_1_def)


lemma demo_risk_factors:
  "calculate_risk_factors demo_env (model_dump clean_request) = Inr []"
  by (simp add: calculate_risk_factors_def demo_timestamp)
     (simp add: model_dump_def clean_request_def get_or_def float_mod_def)

lemma demo_fit_transform:
  "fit_transform demo_env xs = Inr (map (\<lambda>x. 0) xs)"
  by (simp add: demo_env_def)

lemma demo_no_timestamp:
  "detect_fraud_try demo_env fa (model_dump clean_request_no_timestamp) = Inl AttributeError"
  by (simp add: detect_fraud_try_def extract_features_def read_timestamp_def model_dump_def
        clean_request_no_timestamp_def get_or_def opt_val_def)

lemma demo_all_raising:
  "detect_fraud_try demo_env all_raising_agent (model_dump clean_request) =
     Inr \<lparr>overall_score = 0, risk_level = ''LOW'',
          anomaly_scores = [(''isolation_forest'', 0), (''lof'', 0), (''knn'', 0),
                            (''cblof'', 0), (''hbos'', 0)],
          risk_factors = [], confidence = 1, model_version = ''1.0.0''\<rparr>"
proof -
  have s: "np_std [0, 0, 0, 0, 0] = 0" by (rule np_std_zeros) simp
  show ?thesis
    by (simp add: detect_fraud_try_def demo_features demo_fit_transform demo_risk_factors
          score_models_def all_raising_agent_def initialize_models_def raising_detector_def
          ensemble_score_def weights_def get_or_def classify_def THRESHOLD_CRITICAL_def
          THRESHOLD_HIGH_def THRESHOLD_MEDIUM_def s)
qed

lemma demo_single_sample:
  "detect_fraud_try demo_env single_sample_agent (model_dump clean_request) =
     Inr \<lparr>overall_score = 0, risk_level = ''LOW'',
          anomaly_scores = [(''isolation_forest'', 0), (''lof'', 0), (''knn'', 0),
                            (''cblof'', 0), (''hbos'', 0)],
          risk_factors = [], confidence = 1, model_version = ''1.0.0''\<rparr>"
proof -
  have s: "np_std [0, 0, 0, 0, 0] = 0" by (rule np_std_zeros) simp
  show ?thesis
    by (simp add: detect_fraud_try_def demo_features demo_fit_transform demo_risk_factors
          score_models_def single_sample_agent_def initialize_models_def raising_detector_def
          single_sample_detector_def normalized_score_def
          ensemble_score_def weights_def get_or_def classify_def THRESHOLD_CRITICAL_def
          THRESHOLD_HIGH_def THRESHOLD_MEDIUM_def s)
qed


lemma demo_clean_spend:
  "analyze_spending demo_env (model_dump clean_request_no_timestamp) =
     Inr \<lparr>total_spend = 450, budget_utilization = 450 / 295000\<rparr>"
  by (simp add: demo_env_def model_dump_def clean_request_no_timestamp_def)

lemma demo_sanctioned_spend:
  "analyze_spending demo_env (model_dump sanctioned_request) =
     Inr \<lparr>total_spend = 50000, budget_utilization = 50000 / 295000\<rparr>"
  by (simp add: demo_env_def model_dump_def sanctioned_request_def)

lemma demo_no_timestamp_compliance:
  "check_compliance demo_env demo_compliance_agent (model_dump clean_request_no_timestamp) =
     Inr \<lparr>status = ''APPROVED'', sanctions_hit = False, pep_hit = False,
          policy_violations = [], risk_score = 0,
          reviewed_policies = take 3 initial_policy_texts,
          recommendations = [], result_timestamp = ''2025-01-15T10:30:00''\<rparr>"
  by code_simp

section \<open>Aggregation\<close>



text \<open>
  Claim C2. A compliance result with \<open>sanctions_hit\<close> has status REJECTED, and the
  overall status of the response is then REJECTED whatever the fraud agent reports; the
  same holds in the standalone handler.
\<close>

theorem sanctions_precedence:
  "(\<forall>t c. check_compliance ev ca t = Inr c \<and> sanctions_hit c \<longrightarrow> status c = ''REJECTED'')
   \<and> (\<forall>c sp. check_compliance ev ca (model_dump tx) = Inr c \<and> sanctions_hit c
           \<and> analyze_spending ev (model_dump tx) = Inr sp
         \<longrightarrow> (\<exists>r. process_transaction ev fa ca tx = Inr r \<and> compliance_check r = c
                 \<and> overall_status r = ''REJECTED''))
   \<and> (sim_sanctions_hit (sa_compliance_check (standalone_process_transaction tx))
         \<longrightarrow> sim_status (sa_compliance_check (standalone_process_transaction tx)) = ''REJECTED''
           \<and> sa_overall_status (standalone_process_transaction tx) = ''REJECTED'')"
proof (intro conjI allI impI)
  fix t c
  assume "check_compliance ev ca t = Inr c \<and> sanctions_hit c"
  then show "status c = ''REJECTED''"
    using check_compliance_sanctions(2) by blast
next
  fix c sp
  assume h: "check_compliance ev ca (model_dump tx) = Inr c \<and> sanctions_hit c
           \<and> analyze_spending ev (model_dump tx) = Inr sp"
  then have "status c = ''REJECTED''"
    using check_compliance_sanctions(2) by blast
  then show "\<exists>r. process_transaction ev fa ca tx = Inr r \<and> compliance_check r = c
                 \<and> overall_status r = ''REJECTED''"
    using h by (simp add: process_transaction_def Let_def)
next
  assume "sim_sanctions_hit (sa_compliance_check (standalone_process_transaction tx))"
  then show "sim_status (sa_compliance_check (standalone_process_transaction tx)) = ''REJECTED''"
    by (simp add: standalone_process_transaction_def Let_def sim_hit_rejected)
next
  assume "sim_sanctions_hit (sa_compliance_check (standalone_process_transaction tx))"
  then show "sa_overall_status (standalone_process_transaction tx) = ''REJECTED''"
    by (simp add: standalone_process_transaction_def Let_def sim_hit_rejected)
qed

theorem sanctions_precedence_witness:
  "(\<exists>c. check_compliance demo_env demo_compliance_agent (model_dump sanctioned_request) = Inr c
        \<and> sanctions_hit c \<and> status c = ''REJECTED'')
   \<and> analyze_spending demo_env (model_dump sanctioned_request) =
       Inr \<lparr>total_spend = 50000, budget_utilization = 50000 / 295000\<rparr>
   \<and> (\<exists>r. process_transaction demo_env overshooting_agent demo_compliance_agent
              sanctioned_request = Inr r
          \<and> overall_status r = ''REJECTED'')
   \<and> sim_sanctions_hit (sa_compliance_check (standalone_process_transaction sanctioned_request))
   \<and> sa_overall_status (standalone_process_transaction sanctioned_request) = ''REJECTED''"
proof -
  note inst = sanctions_precedence [of demo_env demo_compliance_agent sanctioned_request
      overshooting_agent]
  show ?thesis
    using inst demo_sanctioned_compliance demo_sanctioned_spend demo_sanctioned_standalone
    by auto
qed

section \<open>Sanctions matching on an empty name\<close>

text \<open>
  Claim C10. The empty string is contained in every string, so for a transaction whose
  merchant is the empty string the sanctions check records a match on the main name of
  every entry, one per entry and in order; with at least one entry loaded and the policy
  retrieval returning, \<open>check_compliance\<close> returns a result with a sanctions hit and
  status REJECTED.
\<close>

theorem empty_merchant_rejected:
  assumes "merchant t = Some []"
  shows "check_sanctions agent (get_or (merchant t) ''Unknown'') =
           (sanctions_lists agent \<noteq> [],
            map (\<lambda>s. ''Matched '' @ list_type s @ '': '' @ entity_name s) (sanctions_lists agent))
         \<and> (\<forall>ps. sanctions_lists agent \<noteq> [] \<and> retrieve_relevant_policies ev agent t 3 = Inr ps
               \<longrightarrow> (\<exists>c. check_compliance ev agent t = Inr c \<and> sanctions_hit c
                         \<and> status c = ''REJECTED''))"
proof (intro conjI allI impI)
  show "check_sanctions agent (get_or (merchant t) ''Unknown'') =
           (sanctions_lists agent \<noteq> [],
            map (\<lambda>s. ''Matched '' @ list_type s @ '': '' @ entity_name s) (sanctions_lists agent))"
    using assms by (simp add: get_or_def check_sanctions_empty)
next
  fix ps
  assume h: "sanctions_lists agent \<noteq> [] \<and> retrieve_relevant_policies ev agent t 3 = Inr ps"
  then obtain c where c: "check_compliance ev agent t = Inr c"
    using check_compliance_returns by blast
  have "sanctions_hit c"
    using check_compliance_sanctions(1)[OF c] assms h
    by (simp add: get_or_def check_sanctions_empty)
  then show "\<exists>c. check_compliance ev agent t = Inr c \<and> sanctions_hit c \<and> status c = ''REJECTED''"
    using c check_compliance_sanctions(2)[OF c] by blast
qed

theorem empty_merchant_rejected_witness:
  "merchant (model_dump empty_merchant_request) = Some []
   \<and> sanctions_lists demo_compliance_agent \<noteq> []
   \<and> retrieve_relevant_policies demo_env demo_compliance_agent
        (model_dump empty_merchant_request) 3 = Inr (take 3 initial_policy_texts)
   \<and> fst (check_sanctions demo_compliance_agent
        (get_or (merchant (model_dump empty_merchant_request)) ''Unknown''))
   \<and> (\<exists>c. check_compliance demo_env demo_compliance_agent (model_dump empty_merchant_request)
             = Inr c \<and> sanctions_hit c \<and> status c = ''REJECTED'')"
proof -
  have m: "merchant (model_dump empty_merchant_request) = Some []"
    by (simp add: model_dump_def empty_merchant_request_def)
  note inst = empty_merchant_rejected [OF m, of demo_compliance_agent demo_env]
  show ?thesis
    using inst m demo_sanctions_nonempty demo_empty_merchant_retrieval
    by auto
qed

section \<open>A failing fraud step\<close>

lemma all_raising_scores_zero:
  assumes "\<forall>(n, d) \<in> set ms. \<forall>fs. \<exists>e. d fs = Inl e"
  shows "\<forall>(n, v) \<in> set (score_models ms fs). v = 0"
proof (clarify)
  fix n v assume "(n, v) \<in> set (score_models ms fs)"
  then obtain d where d: "(n, d) \<in> set ms"
    and v: "v = (case d fs of Inl e \<Rightarrow> 0 | Inr r \<Rightarrow> normalized_score r)"
    using score_models_member by blast
  from assms d obtain e where "d fs = Inl e" by blast
  then show "v = 0" using v by simp
qed

lemma classify_zero: "classify 0 = ''LOW''"
  by (simp add: classify_def THRESHOLD_CRITICAL_def THRESHOLD_HIGH_def THRESHOLD_MEDIUM_def)

lemma medium_chain:
  "spec_overall_status st ''MEDIUM'' =
     (if st = ''REJECTED'' then ''REJECTED''
      else if st = ''REVIEW_REQUIRED'' then ''REVIEW_REQUIRED'' else ''APPROVED'')"
  by (simp add: spec_overall_status_def)

lemma low_chain:
  "spec_overall_status st ''LOW'' =
     (if st = ''REJECTED'' then ''REJECTED''
      else if st = ''REVIEW_REQUIRED'' then ''REVIEW_REQUIRED'' else ''APPROVED'')"
  by (simp add: spec_overall_status_def)

text \<open>
  Claim C1, as amended. When the compliance and spend steps return, the handler returns a
  disposition also when the fraud step fails. If the scoring body raises (an exception
  outside the per-detector handlers, as for a request without timestamp), the fraud result
  is the default one: risk level MEDIUM, score 0.5, confidence 0. If only the detectors
  raise, each is scored 0.0 and the fraud result is a regular one with score 0 and risk
  level LOW. In both cases the fraud result does not flag, and the overall status is
  REJECTED, REVIEW_REQUIRED or APPROVED as the compliance status is: it is APPROVED when
  compliance approves.
\<close>

theorem fraud_failure_disposition:
  assumes "check_compliance ev ca (model_dump tx) = Inr c"
    and "analyze_spending ev (model_dump tx) = Inr sp"
  shows "\<exists>r. process_transaction ev fa ca tx = Inr r \<and> compliance_check r = c
           \<and> ((\<exists>e. detect_fraud_try ev fa (model_dump tx) = Inl e)
                \<longrightarrow> risk_level (fraud_analysis r) = ''MEDIUM''
                  \<and> overall_score (fraud_analysis r) = 0.5
                  \<and> confidence (fraud_analysis r) = 0
                  \<and> overall_status r =
                      (if status c = ''REJECTED'' then ''REJECTED''
                       else if status c = ''REVIEW_REQUIRED'' then ''REVIEW_REQUIRED''
                       else ''APPROVED''))
           \<and> ((\<exists>r'. detect_fraud_try ev fa (model_dump tx) = Inr r')
                \<and> (\<forall>(n, d) \<in> set (models fa). \<forall>fs. \<exists>e. d fs = Inl e)
                \<longrightarrow> risk_level (fraud_analysis r) = ''LOW''
                  \<and> overall_score (fraud_analysis r) = 0
                  \<and> overall_status r =
                      (if status c = ''REJECTED'' then ''REJECTED''
                       else if status c = ''REVIEW_REQUIRED'' then ''REVIEW_REQUIRED''
                       else ''APPROVED''))"
proof -
  let ?f = "detect_fraud ev fa (model_dump tx)"
  let ?r = "\<lparr>response_id = t_id tx, fraud_analysis = ?f, compliance_check = c,
             spend_analysis = sp,
             overall_status = spec_overall_status (status c) (risk_level ?f),
             response_timestamp = now_iso ev\<rparr>"
  have r: "process_transaction ev fa ca tx = Inr ?r"
    using process_transaction_returns [OF assms] .
  have a: "risk_level ?f = ''MEDIUM'' \<and> overall_score ?f = 0.5 \<and> confidence ?f = 0"
    if "\<exists>e. detect_fraud_try ev fa (model_dump tx) = Inl e"
    using that detect_fraud_default by fastforce
  have b: "risk_level ?f = ''LOW'' \<and> overall_score ?f = 0"
    if h: "(\<exists>r'. detect_fraud_try ev fa (model_dump tx) = Inr r')
           \<and> (\<forall>(n, d) \<in> set (models fa). \<forall>fs. \<exists>e. d fs = Inl e)"
  proof -
    from h obtain r' where r': "detect_fraud_try ev fa (model_dump tx) = Inr r'" by blast
    have f: "?f = r'" using detect_fraud_result [OF r'] .
    from detect_fraud_try_InrD [OF r'] obtain fs where
      s: "anomaly_scores r' = score_models (models fa) fs"
      and o: "overall_score r' = ensemble_score (anomaly_scores r')"
      and l: "risk_level r' = classify (overall_score r')"
      by blast
    have "\<forall>(n, v) \<in> set (anomaly_scores r'). v = 0"
      unfolding s using h all_raising_scores_zero by blast
    then have "overall_score r' = 0"
      using o ensemble_score_zero by simp
    then show ?thesis using f l classify_zero by simp
  qed
  show ?thesis
  proof (intro exI [of _ ?r] conjI impI)
    show "process_transaction ev fa ca tx = Inr ?r" by (rule r)
  qed (use a b in \<open>simp_all add: medium_chain low_chain\<close>)
qed

theorem fraud_failure_disposition_witness:
  "(\<exists>c. check_compliance demo_env demo_compliance_agent
            (model_dump clean_request_no_timestamp) = Inr c \<and> status c = ''APPROVED'')
   \<and> analyze_spending demo_env (model_dump clean_request_no_timestamp) =
       Inr \<lparr>total_spend = 450, budget_utilization = 450 / 295000\<rparr>
   \<and> detect_fraud_try demo_env all_raising_agent (model_dump clean_request_no_timestamp)
       = Inl AttributeError
   \<and> (\<exists>r. process_transaction demo_env all_raising_agent demo_compliance_agent
              clean_request_no_timestamp = Inr r
          \<and> risk_level (fraud_analysis r) = ''MEDIUM''
          \<and> confidence (fraud_analysis r) = 0
          \<and> overall_status r = ''APPROVED'')
   \<and> (\<exists>r'. detect_fraud_try demo_env all_raising_agent (model_dump clean_request) = Inr r')
   \<and> map snd (models all_raising_agent) = replicate 5 raising_detector
   \<and> (\<exists>r. process_transaction demo_env all_raising_agent demo_compliance_agent
              clean_request = Inr r
          \<and> risk_level (fraud_analysis r) = ''LOW''
          \<and> overall_status r = ''APPROVED'')"
proof -
  note failed = fraud_failure_disposition [OF demo_no_timestamp_compliance demo_clean_spend,
      of all_raising_agent]
  note scored = fraud_failure_disposition [OF demo_clean_compliance demo_spend,
      of all_raising_agent]
  have d: "\<forall>(n, d) \<in> set (models all_raising_agent). \<forall>fs. \<exists>e. d fs = Inl e"
    by (simp add: all_raising_agent_def initialize_models_def raising_detector_def)
  have m: "map snd (models all_raising_agent) = replicate 5 raising_detector"
    by (simp add: all_raising_agent_def initialize_models_def numeral_eq_Suc)
  have t: "\<exists>r'. detect_fraud_try demo_env all_raising_agent (model_dump clean_request) = Inr r'"
    using demo_all_raising by blast
  have n: "\<exists>e. detect_fraud_try demo_env all_raising_agent
                  (model_dump clean_request_no_timestamp) = Inl e"
    using demo_no_timestamp by blast
  from failed n obtain r1 where
    r1: "process_transaction demo_env all_raising_agent demo_compliance_agent
           clean_request_no_timestamp = Inr r1
         \<and> risk_level (fraud_analysis r1) = ''MEDIUM'' \<and> confidence (fraud_analysis r1) = 0
         \<and> overall_status r1 = ''APPROVED''"
    by auto
  from scored t d obtain r2 where
    r2: "process_transaction demo_env all_raising_agent demo_compliance_agent
           clean_request = Inr r2
         \<and> risk_level (fraud_analysis r2) = ''LOW'' \<and> overall_status r2 = ''APPROVED''"
    by auto
  have c1: "\<exists>c. check_compliance demo_env demo_compliance_agent
                 (model_dump clean_request_no_timestamp) = Inr c \<and> status c = ''APPROVED''"
    using demo_no_timestamp_compliance by simp
  have c4: "\<exists>r. process_transaction demo_env all_raising_agent demo_compliance_agent
                 clean_request_no_timestamp = Inr r
              \<and> risk_level (fraud_analysis r) = ''MEDIUM''
              \<and> confidence (fraud_analysis r) = 0
              \<and> overall_status r = ''APPROVED''"
    using r1 by blast
  have c7: "\<exists>r. process_transaction demo_env all_raising_agent demo_compliance_agent
                 clean_request = Inr r
              \<and> risk_level (fraud_analysis r) = ''LOW''
              \<and> overall_status r = ''APPROVED''"
    using r2 by blast
  show ?thesis
    by (intro conjI) (rule c1 demo_clean_spend demo_no_timestamp c4 t m c7)+
qed

text \<open>
  The claim as stated fails: a request without timestamp makes the scoring body raise,
  the sanctions, PEP and policy checks find nothing, and the response is APPROVED.
\<close>

theorem fraud_failure_approved_counterexample:
  "detect_fraud_try demo_env all_raising_agent (model_dump clean_request_no_timestamp)
     = Inl AttributeError
   \<and> process_transaction demo_env all_raising_agent demo_compliance_agent
       clean_request_no_timestamp =
     Inr \<lparr>response_id = ''TXN-1'',
          fraud_analysis =
            \<lparr>overall_score = 0.5, risk_level = ''MEDIUM'', anomaly_scores = [],
             risk_factors = [ErrorDuringAnalysis], confidence = 0,
             model_version = ''1.0.0''\<rparr>,
          compliance_check =
            \<lparr>status = ''APPROVED'', sanctions_hit = False, pep_hit = False,
             policy_violations = [], risk_score = 0,
             reviewed_policies = take 3 initial_policy_texts,
             recommendations = [], result_timestamp = ''2025-01-15T10:30:00''\<rparr>,
          spend_analysis = \<lparr>total_spend = 450, budget_utilization = 450 / 295000\<rparr>,
          overall_status = ''APPROVED'',
          response_timestamp = ''2025-01-15T10:30:00''\<rparr>"
proof -
  have v: "agent_version all_raising_agent = ''1.0.0''"
    by (simp add: all_raising_agent_def initialize_models_def)
  have t: "t_id clean_request_no_timestamp = ''TXN-1''"
    by (simp add: clean_request_no_timestamp_def)
  have n: "now_iso demo_env = ''2025-01-15T10:30:00''"
    by (simp add: demo_env_def)
  show ?thesis
    by (simp add: demo_no_timestamp
          process_transaction_returns [OF demo_no_timestamp_compliance demo_clean_spend]
          detect_fraud_default [OF demo_no_timestamp] spec_overall_status_def v t n)
qed

section \<open>Normalisation of a degenerate score distribution\<close>

text \<open>
  Claim C4, as amended. When the minimum and the maximum of a detector's decision scores
  coincide, the normalisation divides by \<open>1e-10\<close>, not by zero, and yields the score's
  distance from that minimum times \<open>1e10\<close>: it is 0 when the score equals the minimum, as
  for a detector fitted on the single sample it then scores.
\<close>

theorem degenerate_normalization:
  assumes "scores_max r = scores_min r"
  shows "scores_max r - scores_min r + 1 / 10 ^ 10 \<noteq> 0
       \<and> normalized_score r = (score r - scores_min r) * 10 ^ 10
       \<and> (score r = scores_min r \<longrightarrow> normalized_score r = 0)"
  using assms by (simp add: normalized_score_def)

theorem degenerate_normalization_witness:
  "scores_max \<lparr>score = 3, scores_min = 3, scores_max = 3\<rparr>
     = scores_min \<lparr>score = 3, scores_min = 3, scores_max = 3\<rparr>
   \<and> normalized_score \<lparr>score = 3, scores_min = 3, scores_max = 3\<rparr> = 0
   \<and> normalized_score \<lparr>score = 4, scores_min = 3, scores_max = 3\<rparr> = 10 ^ 10"
  using degenerate_normalization [of "\<lparr>score = 3, scores_min = 3, scores_max = 3\<rparr>"]
    degenerate_normalization [of "\<lparr>score = 4, scores_min = 3, scores_max = 3\<rparr>"]
  by simp

text \<open>
  The claim as stated fails: the normalised score of a single-sample detector is 0, not
  0.5, and so are all five scores of the ensemble in that case.
\<close>

theorem degenerate_normalization_counterexample:
  "normalized_score \<lparr>score = 3, scores_min = 3, scores_max = 3\<rparr> \<noteq> 0.5
   \<and> anomaly_scores (detect_fraud demo_env single_sample_agent (model_dump clean_request))
       = [(''isolation_forest'', 0), (''lof'', 0), (''knn'', 0), (''cblof'', 0), (''hbos'', 0)]"
  by (simp add: normalized_score_def detect_fraud_result [OF demo_single_sample])

section \<open>Confidence\<close>








section \<open>Score bounds\<close>






section \<open>Policy retrieval beyond the size of the index\<close>

lemma collect_length:
  assumes "collect rs = Inr xs"
  shows "length xs = length rs"
  using assms
  by (induction rs arbitrary: xs) (auto split: sum.splits)

lemma index_search_length: "length (index_search index query k) = k"
  by (simp add: index_search_def Let_def)

lemma retrieve_length:
  assumes "retrieve_relevant_policies ev agent t k = Inr ps"
  shows "length ps = k"
  using assms
  by (auto simp: retrieve_relevant_policies_def Let_def index_search_length
        split: sum.splits dest!: collect_length)

text \<open>
  Claim C6 fails on the code. The search answers with exactly \<open>k\<close> labels, and the
  retrieval turns every label into a text; a label \<open>-1\<close>, which the search gives for a
  missing neighbour, is Python's index of the last element. With the ten seeded policies
  and \<open>k = 11\<close> the retrieval returns eleven texts, the last policy twice, where the claim
  has ten.
\<close>

theorem retrieval_beyond_index_size:
  "length (policy_index demo_compliance_agent) = 10
   \<and> length (policy_texts demo_compliance_agent) = 10
   \<and> index_search (policy_index demo_compliance_agent) [0] 11
       = [0, 1, 2, 3, 4, 5, 6, 7, 8, 9, - 1]
   \<and> retrieve_relevant_policies demo_env demo_compliance_agent (model_dump clean_request) 11
       = Inr (initial_policy_texts @ [initial_policy_texts ! 9])"
  by code_simp

section \<open>Failures of a step\<close>






section \<open>Determinism of feature extraction\<close>




end
